theory Spec2Isabelle
  imports Main "HOL-Library.AList" "HOL-Library.Sublist"
begin

section \<open>The todo slice of the Redux Toolkit tutorial\<close>

text \<open>
  The program is the slice \<^verbatim>\<open>todoSlice.js\<close>:
  \<^verbatim>\<open>
  const initialState = { todos: [ { id: 1, text: 'Hello world!' } ] };

  addTodo: (state, action) => {
      const todo = { id: nanoid(), text: action.payload };
      state.todos.push(todo);
  },
  removeTodo: (state, action) => {
      state.todos = state.todos.filter((todo) => todo.id !== action.payload);
  }
  \<close>
  The reducers are written as mutations of a draft; the model passes the state in and
  returns the next state.
\<close>

subsection \<open>Values and strict equality\<close>

text \<open>
  Identifiers, texts and payloads are JavaScript primitives: the seeded identifier is the
  number \<open>1\<close>, a generated identifier is a string, and a payload is whatever the caller
  dispatches. Finite numbers are represented by integers; \<open>PNaN\<close> is kept apart,
  being the one value that is not strictly equal to itself. Payloads that are objects
  (compared by reference) are outside the model.
\<close>

datatype prim = PUndefined | PNull | PBool bool | PNum int | PNaN | PStr string

datatype jstype = TUndefined | TNull | TBoolean | TNumber | TString

fun type_of :: "prim \<Rightarrow> jstype" where
  "type_of PUndefined = TUndefined"
| "type_of PNull = TNull"
| "type_of (PBool b) = TBoolean"
| "type_of (PNum n) = TNumber"
| "type_of PNaN = TNumber"
| "type_of (PStr s) = TString"

text \<open>
  \<open>x === y\<close>: false when the types differ; on numbers false when either side is NaN,
  otherwise equality of the values.
\<close>

fun strict_eq :: "prim \<Rightarrow> prim \<Rightarrow> bool" where
  "strict_eq PUndefined PUndefined = True"
| "strict_eq PNull PNull = True"
| "strict_eq (PBool a) (PBool b) = (a = b)"
| "strict_eq (PNum a) (PNum b) = (a = b)"
| "strict_eq (PStr a) (PStr b) = (a = b)"
| "strict_eq _ _ = False"

text \<open>\<open>x !== y\<close>\<close>

definition strict_neq :: "prim \<Rightarrow> prim \<Rightarrow> bool" where
  "strict_neq x y = (\<not> strict_eq x y)"

subsection \<open>The state and the two case reducers\<close>

text \<open>
  A todo is the object \<open>{ id, text }\<close>; the fields are named \<open>todo_id\<close> and
  \<open>todo_text\<close> here because \<open>id\<close> is the identity function of HOL and \<open>text\<close> is a
  keyword. The slice state is the object \<open>{ todos }\<close>.
\<close>

record todo =
  todo_id :: prim
  todo_text :: prim

record state =
  todos :: "todo list"

definition initialState :: state where
  "initialState = \<lparr>todos = [\<lparr>todo_id = PNum 1, todo_text = PStr ''Hello world!''\<rparr>]\<rparr>"

text \<open>
  \<open>nanoid()\<close> is a library call that returns a string. The string it returns in a given
  call is the parameter \<open>nid\<close> of the model.
\<close>

definition addTodo :: "string \<Rightarrow> state \<Rightarrow> prim \<Rightarrow> state" where
  "addTodo nid state payload =
     (let todo = \<lparr>todo_id = PStr nid, todo_text = payload\<rparr>
      in state\<lparr>todos := todos state @ [todo]\<rparr>)"

definition removeTodo :: "state \<Rightarrow> prim \<Rightarrow> state" where
  "removeTodo state payload =
     state\<lparr>todos := filter (\<lambda>todo. strict_neq (todo_id todo) payload) (todos state)\<rparr>"

subsection \<open>Dispatching a sequence of actions\<close>

text \<open>
  The slice exports the two action creators \<open>addTodo\<close> and \<open>removeTodo\<close>; the slice
  reducer runs the case reducer the action names. A dispatch is paired with the string
  \<open>nanoid()\<close> returns during it (read by \<open>addTodo\<close> only).
\<close>

datatype action = AddTodo prim | RemoveTodo prim

fun reducer :: "string \<Rightarrow> state \<Rightarrow> action \<Rightarrow> state" where
  "reducer nid s (AddTodo payload) = addTodo nid s payload"
| "reducer nid s (RemoveTodo payload) = removeTodo s payload"

fun dispatch_all :: "state \<Rightarrow> (string \<times> action) list \<Rightarrow> state" where
  "dispatch_all s [] = s"
| "dispatch_all s ((nid, a) # rest) = dispatch_all (reducer nid s a) rest"

text \<open>The identifiers held by a state, in list order.\<close>

definition ids :: "state \<Rightarrow> prim list" where
  "ids s = map todo_id (todos s)"

text \<open>
  A run in which the generator is fresh: at every \<open>addTodo\<close> the string drawn is not
  the identifier of a record of the state the action is applied to.
\<close>

fun fresh_run :: "state \<Rightarrow> (string \<times> action) list \<Rightarrow> bool" where
  "fresh_run s [] = True"
| "fresh_run s ((nid, AddTodo payload) # rest) =
     (PStr nid \<notin> set (ids s) \<and> fresh_run (addTodo nid s payload) rest)"
| "fresh_run s ((nid, RemoveTodo payload) # rest) = fresh_run (removeTodo s payload) rest"

subsection \<open>The reducers on untyped values\<close>

text \<open>
  JavaScript checks nothing before it runs: \<open>state.todos.push(todo)\<close> throws a TypeError
  when \<open>state.todos\<close> is not an array, and so does \<open>state.todos.filter(...)\<close>, or the
  callback's \<open>todo.id\<close> when an element is \<open>null\<close> or \<open>undefined\<close>. The second
  model keeps these failures: the state is an untyped value and each reducer returns
  either the error thrown or the next state.
\<close>

datatype jsval = Prim prim | JArr "jsval list" | JObj "(string \<times> jsval) list"

datatype jserror = TypeError

text \<open>
  \<open>v.k\<close> for the names \<open>todos\<close> and \<open>id\<close>, which no built-in prototype defines:
  a TypeError on \<open>undefined\<close> and \<open>null\<close>, the own property of an object, and
  \<open>undefined\<close> otherwise.
\<close>

fun get_prop :: "jsval \<Rightarrow> string \<Rightarrow> jserror + jsval" where
  "get_prop (Prim PUndefined) k = Inl TypeError"
| "get_prop (Prim PNull) k = Inl TypeError"
| "get_prop (JObj kvs) k = Inr (case map_of kvs k of None \<Rightarrow> Prim PUndefined | Some v \<Rightarrow> v)"
| "get_prop v k = Inr (Prim PUndefined)"

text \<open>
  \<open>obj.k = v\<close>. Both reducers reach the assignment only after \<open>state.todos\<close> has been
  read as an array, that is on an object; every other receiver is an error here.
\<close>

fun set_prop :: "jsval \<Rightarrow> string \<Rightarrow> jsval \<Rightarrow> jserror + jsval" where
  "set_prop (JObj kvs) k v = Inr (JObj (AList.update k v kvs))"
| "set_prop obj k v = Inl TypeError"

text \<open>\<open>arr.push(v)\<close>: the array extended at its end; a TypeError when \<open>arr\<close> is not an array.\<close>

fun call_push :: "jsval \<Rightarrow> jsval \<Rightarrow> jserror + jsval" where
  "call_push (JArr xs) v = Inr (JArr (xs @ [v]))"
| "call_push arr v = Inl TypeError"

text \<open>
  \<open>arr.filter(cb)\<close>: the callback runs on the elements from left to right, and the first
  error it throws ends the call.
\<close>

fun filter_js :: "(jsval \<Rightarrow> jserror + bool) \<Rightarrow> jsval list \<Rightarrow> jserror + jsval list" where
  "filter_js cb [] = Inr []"
| "filter_js cb (x # xs) =
     (case cb x of
        Inl e \<Rightarrow> Inl e
      | Inr keep \<Rightarrow>
          (case filter_js cb xs of
             Inl e \<Rightarrow> Inl e
           | Inr ys \<Rightarrow> Inr (if keep then x # ys else ys)))"

fun call_filter :: "jsval \<Rightarrow> (jsval \<Rightarrow> jserror + bool) \<Rightarrow> jserror + jsval" where
  "call_filter (JArr xs) cb =
     (case filter_js cb xs of Inl e \<Rightarrow> Inl e | Inr ys \<Rightarrow> Inr (JArr ys))"
| "call_filter arr cb = Inl TypeError"

text \<open>\<open>v !== payload\<close> for a primitive payload: an array or an object is never equal to it.\<close>

fun strict_neq_val :: "jsval \<Rightarrow> prim \<Rightarrow> bool" where
  "strict_neq_val (Prim x) y = strict_neq x y"
| "strict_neq_val obj y = True"

definition addTodo_js :: "string \<Rightarrow> jsval \<Rightarrow> prim \<Rightarrow> jserror + jsval" where
  "addTodo_js nid state payload =
     (let todo = JObj [(''id'', Prim (PStr nid)), (''text'', Prim payload)]
      in case get_prop state ''todos'' of
           Inl e \<Rightarrow> Inl e
         | Inr ts \<Rightarrow>
             (case call_push ts todo of
                Inl e \<Rightarrow> Inl e
              | Inr ts' \<Rightarrow> set_prop state ''todos'' ts'))"

definition removeTodo_js :: "jsval \<Rightarrow> prim \<Rightarrow> jserror + jsval" where
  "removeTodo_js state payload =
     (case get_prop state ''todos'' of
        Inl e \<Rightarrow> Inl e
      | Inr ts \<Rightarrow>
          (case call_filter ts
                  (\<lambda>todo. case get_prop todo ''id'' of
                             Inl e \<Rightarrow> Inl e
                           | Inr i \<Rightarrow> Inr (strict_neq_val i payload)) of
             Inl e \<Rightarrow> Inl e
           | Inr ts' \<Rightarrow> set_prop state ''todos'' ts'))"

text \<open>The value a typed todo and a typed state stand for.\<close>

definition todo_js :: "todo \<Rightarrow> jsval" where
  "todo_js t = JObj [(''id'', Prim (todo_id t)), (''text'', Prim (todo_text t))]"

definition state_js :: "state \<Rightarrow> jsval" where
  "state_js s = JObj [(''todos'', JArr (map todo_js (todos s)))]"


section \<open>Properties\<close>

subsection \<open>Strict equality\<close>

lemma strict_eq_iff: "strict_eq x y \<longleftrightarrow> x = y \<and> x \<noteq> PNaN"
  by (cases x; cases y) auto

lemma strict_neq_iff: "strict_neq x y \<longleftrightarrow> x \<noteq> y \<or> x = PNaN"
  by (auto simp: strict_neq_def strict_eq_iff)

subsection \<open>addTodo\<close>

text \<open>
  C1. For every state, every generated identifier and every payload (every text in
  particular), \<open>addTodo\<close> appends exactly one record at the end of the list; the text of
  that record is the payload, and the list is longer by exactly one.
\<close>

theorem addTodo_appends_one:
  "todos (addTodo nid s payload) = todos s @ [\<lparr>todo_id = PStr nid, todo_text = payload\<rparr>]
   \<and> todo_text (last (todos (addTodo nid s payload))) = payload
   \<and> length (todos (addTodo nid s payload)) = length (todos s) + 1"
  by (simp add: addTodo_def)

text \<open>
  C5. \<open>addTodo\<close> validates nothing: with the empty string as payload it appends the
  record whose text is the empty string and the list is longer by one, which is the
  instance of what it does for every payload.
\<close>

theorem addTodo_empty_text:
  "todos (addTodo nid s (PStr '''')) = todos s @ [\<lparr>todo_id = PStr nid, todo_text = PStr ''''\<rparr>]
   \<and> length (todos (addTodo nid s (PStr ''''))) = length (todos s) + 1
   \<and> (\<forall>payload. todos (addTodo nid s payload)
         = todos s @ [\<lparr>todo_id = PStr nid, todo_text = payload\<rparr>])"
  by (simp add: addTodo_def)

subsection \<open>removeTodo\<close>

lemma length_filter_neq_distinct:
  "distinct (map f xs) \<Longrightarrow> a \<in> set (map f xs) \<Longrightarrow>
   length (filter (\<lambda>t. f t \<noteq> a) xs) + 1 = length xs"
proof (induction xs)
  case Nil
  then show ?case by simp
next
  case (Cons x xs)
  show ?case
  proof (cases "f x = a")
    case True
    with Cons.prems have "a \<notin> f ` set xs" by auto
    then have "filter (\<lambda>t. f t \<noteq> a) xs = xs"
      by (auto simp: filter_id_conv)
    with True show ?thesis by simp
  next
    case False
    with Cons show ?thesis by auto
  qed
qed

lemma strict_neq_present:
  "strict_eq (todo_id t) payload \<Longrightarrow> strict_neq (todo_id u) payload = (todo_id u \<noteq> payload)"
  by (auto simp: strict_neq_iff strict_eq_iff)

text \<open>
  A record whose identifier is NaN is never removed: no payload is strictly equal to NaN.
\<close>

lemma nan_id_never_removed:
  "removeTodo \<lparr>todos = [\<lparr>todo_id = PNaN, todo_text = a\<rparr>]\<rparr> payload
   = \<lparr>todos = [\<lparr>todo_id = PNaN, todo_text = a\<rparr>]\<rparr>"
  by (simp add: removeTodo_def strict_neq_def)

text \<open>
  C2. When the identifiers of the state are pairwise distinct and some record's
  identifier is strictly equal to the payload, \<open>removeTodo\<close> makes the list shorter by
  exactly one; when no record's identifier is strictly equal to the payload, it returns
  the state unchanged.
\<close>

theorem removeTodo_size:
  "(distinct (ids s) \<and> (\<exists>t \<in> set (todos s). strict_eq (todo_id t) payload)
      \<longrightarrow> length (todos (removeTodo s payload)) + 1 = length (todos s))
   \<and> (\<not> (\<exists>t \<in> set (todos s). strict_eq (todo_id t) payload)
      \<longrightarrow> removeTodo s payload = s)"
proof (intro conjI impI)
  assume h: "distinct (ids s) \<and> (\<exists>t \<in> set (todos s). strict_eq (todo_id t) payload)"
  then obtain t where t: "t \<in> set (todos s)" "strict_eq (todo_id t) payload" by blast
  then have mem: "payload \<in> set (map todo_id (todos s))"
    by (auto simp: strict_eq_iff)
  have "filter (\<lambda>u. strict_neq (todo_id u) payload) (todos s)
        = filter (\<lambda>u. todo_id u \<noteq> payload) (todos s)"
    by (simp add: strict_neq_present [OF t(2)])
  moreover have "length (filter (\<lambda>u. todo_id u \<noteq> payload) (todos s)) + 1 = length (todos s)"
    using h mem by (intro length_filter_neq_distinct) (simp_all add: ids_def)
  ultimately show "length (todos (removeTodo s payload)) + 1 = length (todos s)"
    by (simp add: removeTodo_def)
next
  assume "\<not> (\<exists>t \<in> set (todos s). strict_eq (todo_id t) payload)"
  then have "filter (\<lambda>u. strict_neq (todo_id u) payload) (todos s) = todos s"
    by (simp add: filter_id_conv strict_neq_def)
  then show "removeTodo s payload = s"
    by (simp add: removeTodo_def)
qed

theorem removeTodo_size_witness:
  "(distinct (ids initialState)
      \<and> (\<exists>t \<in> set (todos initialState). strict_eq (todo_id t) (PNum 1)))
   \<and> length (todos (removeTodo initialState (PNum 1))) + 1 = length (todos initialState)
   \<and> \<not> (\<exists>t \<in> set (todos initialState). strict_eq (todo_id t) (PStr ''1''))
   \<and> removeTodo initialState (PStr ''1'') = initialState"
proof -
  have a: "distinct (ids initialState)
      \<and> (\<exists>t \<in> set (todos initialState). strict_eq (todo_id t) (PNum 1))"
    by (simp add: initialState_def ids_def)
  have b: "\<not> (\<exists>t \<in> set (todos initialState). strict_eq (todo_id t) (PStr ''1''))"
    by (simp add: initialState_def)
  from a b removeTodo_size [of initialState "PNum 1"] removeTodo_size [of initialState "PStr ''1''"]
  show ?thesis by blast
qed

text \<open>
  C8. \<open>removeTodo\<close> is idempotent: removing the same identifier a second time changes
  nothing.
\<close>

theorem removeTodo_idempotent:
  "removeTodo (removeTodo s payload) payload = removeTodo s payload"
  by (simp add: removeTodo_def)

text \<open>
  C10. \<open>removeTodo\<close> removes every record whose identifier is strictly equal to the
  payload: none is left, and the list is shorter by the number of such records, so two
  records carrying the same identifier both go. Values of different types are never
  strictly equal, so the payload \<open>"1"\<close> leaves the seeded record, whose identifier is the
  number \<open>1\<close>, in place.
\<close>

theorem removeTodo_every_match:
  "filter (\<lambda>t. strict_eq (todo_id t) payload) (todos (removeTodo s payload)) = []
   \<and> length (todos (removeTodo s payload))
       + length (filter (\<lambda>t. strict_eq (todo_id t) payload) (todos s)) = length (todos s)
   \<and> todos (removeTodo \<lparr>todos = [\<lparr>todo_id = PStr ''x'', todo_text = a\<rparr>,
                                 \<lparr>todo_id = PNum 1, todo_text = b\<rparr>,
                                 \<lparr>todo_id = PStr ''x'', todo_text = c\<rparr>]\<rparr> (PStr ''x''))
       = [\<lparr>todo_id = PNum 1, todo_text = b\<rparr>]
   \<and> (type_of x \<noteq> type_of y \<longrightarrow> \<not> strict_eq x y)
   \<and> removeTodo initialState (PStr ''1'') = initialState"
proof (intro conjI impI)
  show "filter (\<lambda>t. strict_eq (todo_id t) payload) (todos (removeTodo s payload)) = []"
    by (simp add: removeTodo_def strict_neq_def)
  show "length (todos (removeTodo s payload))
       + length (filter (\<lambda>t. strict_eq (todo_id t) payload) (todos s)) = length (todos s)"
    using sum_length_filter_compl [of "\<lambda>t. strict_eq (todo_id t) payload" "todos s"]
    by (simp add: removeTodo_def strict_neq_def)
  show "todos (removeTodo \<lparr>todos = [\<lparr>todo_id = PStr ''x'', todo_text = a\<rparr>,
                                 \<lparr>todo_id = PNum 1, todo_text = b\<rparr>,
                                 \<lparr>todo_id = PStr ''x'', todo_text = c\<rparr>]\<rparr> (PStr ''x''))
       = [\<lparr>todo_id = PNum 1, todo_text = b\<rparr>]"
    by (simp add: removeTodo_def strict_neq_def)
  show "\<not> strict_eq x y" if "type_of x \<noteq> type_of y"
    using that by (cases x; cases y) simp_all
  show "removeTodo initialState (PStr ''1'') = initialState"
    by (simp add: removeTodo_def initialState_def strict_neq_def)
qed

theorem removeTodo_every_match_witness:
  "type_of (PNum 1) \<noteq> type_of (PStr ''1'')
   \<and> \<not> strict_eq (PNum 1) (PStr ''1'')
   \<and> removeTodo initialState (PStr ''1'') = initialState"
proof -
  have t: "type_of (PNum 1) \<noteq> type_of (PStr ''1'')" by simp
  from t removeTodo_every_match
    [where x = "PNum 1" and y = "PStr ''1''" and s = initialState and payload = "PStr ''1''"]
  show ?thesis by blast
qed

subsection \<open>Both reducers\<close>

text \<open>
  C6. Neither reducer changes or reorders a record it keeps: after \<open>addTodo\<close> the old
  list is the initial segment of the new one; after \<open>removeTodo\<close> the new list is a
  subsequence of the old one, and the records whose identifier is not strictly equal to
  the payload are the same, in the same order, before and after.
\<close>

theorem reducers_frame:
  "take (length (todos s)) (todos (addTodo nid s payload)) = todos s
   \<and> subseq (todos (removeTodo s payload)) (todos s)
   \<and> filter (\<lambda>t. strict_neq (todo_id t) payload) (todos (removeTodo s payload))
       = filter (\<lambda>t. strict_neq (todo_id t) payload) (todos s)"
  by (simp add: addTodo_def removeTodo_def)

text \<open>
  C7. The run of the example: the initial state holds the one todo with identifier 1 and
  text "Hello world!"; adding "Buy milk" with the generated identifier \<open>nid2\<close> gives the
  two records in this order, and removing identifier 1 leaves the new record alone.
\<close>

theorem example_run:
  "todos initialState = [\<lparr>todo_id = PNum 1, todo_text = PStr ''Hello world!''\<rparr>]
   \<and> todos (addTodo nid2 initialState (PStr ''Buy milk''))
       = [\<lparr>todo_id = PNum 1, todo_text = PStr ''Hello world!''\<rparr>,
          \<lparr>todo_id = PStr nid2, todo_text = PStr ''Buy milk''\<rparr>]
   \<and> todos (removeTodo (addTodo nid2 initialState (PStr ''Buy milk'')) (PNum 1))
       = [\<lparr>todo_id = PStr nid2, todo_text = PStr ''Buy milk''\<rparr>]"
  by (simp add: initialState_def addTodo_def removeTodo_def strict_neq_def)

text \<open>
  C9. When the generated identifier does not occur in the state, \<open>addTodo\<close> followed by
  \<open>removeTodo\<close> of the identifier of the record just added gives back the state.
\<close>

theorem add_then_remove:
  "PStr nid \<notin> set (ids s) \<Longrightarrow>
   removeTodo (addTodo nid s payload) (todo_id (last (todos (addTodo nid s payload)))) = s"
proof -
  assume fresh: "PStr nid \<notin> set (ids s)"
  then have "\<forall>t \<in> set (todos s). strict_neq (todo_id t) (PStr nid)"
    by (auto simp: ids_def strict_neq_iff image_iff)
  then have "filter (\<lambda>t. strict_neq (todo_id t) (PStr nid)) (todos s) = todos s"
    by (simp add: filter_id_conv)
  then show ?thesis
    by (simp add: removeTodo_def addTodo_def strict_neq_def)
qed

theorem add_then_remove_witness:
  "PStr ''V1StGXR8'' \<notin> set (ids initialState)
   \<and> removeTodo (addTodo ''V1StGXR8'' initialState (PStr ''Buy milk''))
        (todo_id (last (todos (addTodo ''V1StGXR8'' initialState (PStr ''Buy milk''))))) = initialState"
proof -
  have f: "PStr ''V1StGXR8'' \<notin> set (ids initialState)"
    by (simp add: initialState_def ids_def)
  from f add_then_remove [OF f] show ?thesis by simp
qed

subsection \<open>Uniqueness of identifiers\<close>

lemma ids_addTodo: "ids (addTodo nid s payload) = ids s @ [PStr nid]"
  by (simp add: ids_def addTodo_def)

lemma ids_removeTodo: "ids (removeTodo s payload) = filter (\<lambda>i. strict_neq i payload) (ids s)"
  by (simp add: ids_def removeTodo_def filter_map comp_def)

lemma distinct_reducer_step:
  "distinct (ids s) \<Longrightarrow> fresh_run s ((nid, a) # rest) \<Longrightarrow> distinct (ids (reducer nid s a))"
  by (cases a) (simp_all add: ids_addTodo ids_removeTodo)

lemma fresh_run_step:
  "fresh_run s ((nid, a) # rest) \<Longrightarrow> fresh_run (reducer nid s a) rest"
  by (cases a) simp_all

lemma fresh_run_distinct:
  "distinct (ids s) \<Longrightarrow> fresh_run s as \<Longrightarrow> distinct (ids (dispatch_all s as))"
proof (induction as arbitrary: s)
  case Nil
  then show ?case by simp
next
  case (Cons x as)
  obtain nid a where x: "x = (nid, a)" by (cases x)
  from Cons.prems have d: "distinct (ids (reducer nid s a))"
    unfolding x by (rule distinct_reducer_step)
  from Cons.prems(2) have "fresh_run (reducer nid s a) as"
    unfolding x by (rule fresh_run_step)
  with d have "distinct (ids (dispatch_all (reducer nid s a) as))" by (rule Cons.IH)
  then show ?case by (simp add: x)
qed

text \<open>
  C3. From the initial state, after every sequence of \<open>addTodo\<close> and \<open>removeTodo\<close>
  actions in which each generated identifier is fresh for the state it is added to, the
  identifiers of the records are pairwise distinct.
\<close>

theorem ids_unique_invariant:
  "fresh_run initialState as \<Longrightarrow> distinct (ids (dispatch_all initialState as))"
  by (rule fresh_run_distinct) (simp_all add: initialState_def ids_def)

theorem ids_unique_invariant_witness:
  "fresh_run initialState
     [(''a'', AddTodo (PStr ''Buy milk'')), (''b'', RemoveTodo (PNum 1)), (''c'', AddTodo (PStr ''''))]
   \<and> distinct (ids (dispatch_all initialState
     [(''a'', AddTodo (PStr ''Buy milk'')), (''b'', RemoveTodo (PNum 1)), (''c'', AddTodo (PStr ''''))]))"
proof -
  have f: "fresh_run initialState
     [(''a'', AddTodo (PStr ''Buy milk'')), (''b'', RemoveTodo (PNum 1)), (''c'', AddTodo (PStr ''''))]"
    by (simp add: initialState_def ids_def addTodo_def removeTodo_def strict_neq_def)
  from f ids_unique_invariant [OF f] show ?thesis by simp
qed

text \<open>Freshness is needed: a generator that repeats a string breaks uniqueness.\<close>

lemma collision_breaks_uniqueness:
  "\<not> distinct (ids (dispatch_all initialState [(''a'', AddTodo p), (''a'', AddTodo q)]))"
  by (simp add: ids_addTodo)

subsection \<open>No failure on a typed state\<close>

lemma filter_js_todos:
  "filter_js (\<lambda>todo. case get_prop todo ''id'' of
                        Inl e \<Rightarrow> Inl e
                      | Inr i \<Rightarrow> Inr (strict_neq_val i payload)) (map todo_js ts)
   = Inr (map todo_js (filter (\<lambda>todo. strict_neq (todo_id todo) payload) ts))"
  by (induction ts) (simp_all add: todo_js_def)

text \<open>The untyped reducers do fail on a state of another shape.\<close>

lemma ill_shaped_state_fails:
  "addTodo_js nid (JObj []) payload = Inl TypeError"
  "removeTodo_js (JObj []) payload = Inl TypeError"
  "removeTodo_js (JObj [(''todos'', JArr [Prim PNull])]) payload = Inl TypeError"
  by (simp_all add: addTodo_js_def removeTodo_js_def)

text \<open>
  C4. On every state of the slice and every payload, neither reducer throws: the
  untyped \<open>addTodo\<close> and \<open>removeTodo\<close> return a next state, which is the value of the
  next state of the typed reducer.
\<close>

theorem reducers_total:
  "addTodo_js nid (state_js s) payload = Inr (state_js (addTodo nid s payload))
   \<and> removeTodo_js (state_js s) payload = Inr (state_js (removeTodo s payload))"
proof
  show "addTodo_js nid (state_js s) payload = Inr (state_js (addTodo nid s payload))"
    by (simp add: addTodo_js_def state_js_def addTodo_def todo_js_def)
  show "removeTodo_js (state_js s) payload = Inr (state_js (removeTodo s payload))"
    by (simp add: removeTodo_js_def state_js_def removeTodo_def filter_js_todos)
qed

end
